theory Spec2Isabelle
  imports Complex_Main
begin

section \<open>The navigation sidebar of \<^verbatim>\<open>src/components/Navigation.jsx\<close>\<close>

text \<open>
  The components of the file are embedded as functions from their props and from the values
  their hooks return to the part of the rendered tree that carries information: which
  elements are rendered, with which links, and the \<^verbatim>\<open>style\<close> values
  \<^verbatim>\<open>height\<close> and \<^verbatim>\<open>top\<close>. CSS class names and the animation
  descriptors of framer-motion are presentation only and are left out.

  JavaScript strings are \<^typ>\<open>string\<close>; a character outside ASCII is written as the
  bytes of its UTF-8 encoding, so \<^verbatim>\<open>===\<close> on strings is equality of lists.
  Array indices are \<^typ>\<open>int\<close>, since \<^verbatim>\<open>findIndex\<close> answers \<open>-1\<close>.
  Pixel values are \<^typ>\<open>real\<close>: the arithmetic on them is taken as exact.
\<close>

subsection \<open>Data\<close>

record link =
  title :: string
  href :: string

record group =
  group_title :: string
  links :: "link list"

text \<open>An entry of the section store: \<^verbatim>\<open>{ id, title, tag? }\<close>.\<close>

record page_section =
  section_id :: string
  section_title :: string
  tag :: "string option"

record section_store =
  sections :: "page_section list"
  visibleSections :: "string list"

record router =
  pathname :: string

text \<open>
  What the hooks of one render return: \<^verbatim>\<open>useRouter()\<close>, the store read by
  \<^verbatim>\<open>useSectionStore\<close>, \<^verbatim>\<open>useIsInsideMobileNavigation()\<close>,
  \<^verbatim>\<open>useIsPresent()\<close> of the highlight element, and the root font size that
  \<^verbatim>\<open>remToPx\<close> reads.
\<close>

record env =
  useRouter :: router
  useSectionStore :: section_store
  useIsInsideMobileNavigation :: bool
  useIsPresent :: bool
  rootFontSize :: real

subsection \<open>Library functions\<close>

text \<open>
  \<^verbatim>\<open>Array.prototype.findIndex\<close>: the index of the first element that satisfies
  the predicate, scanning from index 0 upwards, and \<open>-1\<close> when there is none.
\<close>

fun findIndex_from :: "('a \<Rightarrow> bool) \<Rightarrow> 'a list \<Rightarrow> int \<Rightarrow> int" where
  "findIndex_from P [] k = - 1"
| "findIndex_from P (x # xs) k = (if P x then k else findIndex_from P xs (k + 1))"

definition findIndex :: "('a \<Rightarrow> bool) \<Rightarrow> 'a list \<Rightarrow> int" where
  "findIndex P xs = findIndex_from P xs 0"

text \<open>\<^verbatim>\<open>xs[0]\<close>, which is \<^verbatim>\<open>undefined\<close> (here \<open>None\<close>) on an empty array.\<close>

fun at0 :: "'a list \<Rightarrow> 'a option" where
  "at0 [] = None"
| "at0 (x # xs) = Some x"

text \<open>
  Modelled from the spec: \<^verbatim>\<open>remToPx\<close> lives in \<^verbatim>\<open>@/lib/remToPx\<close>, which is
  not part of the sources at hand. The specification describes it as a constant conversion from
  relative to absolute units, derived from a base text size; the base text size is the
  first argument.
\<close>

definition remToPx :: "real \<Rightarrow> real \<Rightarrow> real" where
  "remToPx fontSize remValue = remValue * fontSize"

subsection \<open>\<^verbatim>\<open>useInitialValue\<close>\<close>

text \<open>
  \<^verbatim>\<open>useRef(value)\<close> creates the reference cell at the first render of a component
  instance and returns the same cell at every later render; the cell is never assigned. The
  cell is the first argument (\<open>None\<close> before the first render) and is returned next to the
  result.
\<close>

definition useInitialValue :: "'a option \<Rightarrow> 'a \<Rightarrow> bool \<Rightarrow> 'a \<times> 'a option" where
  "useInitialValue ref value condition =
     (let initialValue = (case ref of None \<Rightarrow> value | Some v \<Rightarrow> v)
      in (if condition then initialValue else value, Some initialValue))"

subsection \<open>The navigation tree\<close>

definition navigation :: "group list" where
  "navigation = [
     \<lparr>group_title = ''Javascript'',
      links = [
        \<lparr>title = [CHR 0xE8, CHR 0xAF, CHR 0x8D, CHR 0xE6, CHR 0xB3, CHR 0x95, CHR 0xE7, CHR 0x8E, CHR 0xAF, CHR 0xE5, CHR 0xA2, CHR 0x83],
         href = ''/''\<rparr>,
        \<lparr>title = [CHR 0xE9, CHR 0x97, CHR 0xAE, CHR 0xE9, CHR 0xA2, CHR 0x98, CHR 0xE6, CHR 0x91, CHR 0x98, CHR 0xE8, CHR 0xA6, CHR 0x81],
         href = ''/quickstart''\<rparr>,
        \<lparr>title = ''Chrome V8'' @ [CHR 0xE5, CHR 0xBC, CHR 0x95, CHR 0xE6, CHR 0x93, CHR 0x8E],
         href = ''/sdks''\<rparr>,
        \<lparr>title = ''Chrome extensions'',
         href = ''/authentication''\<rparr>,
        \<lparr>title = [CHR 0xE8, CHR 0xAF, CHR 0xAD, CHR 0xE6, CHR 0xB3, CHR 0x95, CHR 0xE6, CHR 0xA0, CHR 0x91, CHR 0xE7, CHR 0xB1, CHR 0xBB, CHR 0xE5, CHR 0x9E, CHR 0x8B, CHR 0xE6, CHR 0xA0, CHR 0x87, CHR 0xE8, CHR 0xAF, CHR 0x86],
         href = ''/pagination''\<rparr>,
        \<lparr>title = [CHR 0xE6, CHR 0xB5, CHR 0x8F, CHR 0xE8, CHR 0xA7, CHR 0x88, CHR 0xE5, CHR 0x99, CHR 0xA8, CHR 0xE8, CHR 0xBF, CHR 0x90, CHR 0xE8, CHR 0xA1, CHR 0x8C, CHR 0xE6, CHR 0x9C, CHR 0xBA, CHR 0xE5, CHR 0x88, CHR 0xB6],
         href = ''/errors''\<rparr>]\<rparr>,
     \<lparr>group_title = ''Babel'',
      links = [
        \<lparr>title = ''Babel'' @ [CHR 0xE4, CHR 0xB9, CHR 0xB1, CHR 0xE7, CHR 0xAC, CHR 0x94],
         href = ''/contacts''\<rparr>,
        \<lparr>title = ''Babel'' @ [CHR 0xE7, CHR 0x96, CHR 0x91, CHR 0xE9, CHR 0x97, CHR 0xAE],
         href = ''/conversations''\<rparr>,
        \<lparr>title = ''babel-core'',
         href = ''/messages''\<rparr>,
        \<lparr>title = [CHR 0xE5, CHR 0x88, CHR 0x9D, CHR 0xE6, CHR 0x8E, CHR 0xA2] @ ''AST'',
         href = ''/groups''\<rparr>,
        \<lparr>title = ''babelrc'' @ [CHR 0xE6, CHR 0x9D, CHR 0x82, CHR 0xE8, CHR 0xB0, CHR 0x88],
         href = ''/attachments''\<rparr>,
        \<lparr>title = ''Babel'' @ [CHR 0xE9, CHR 0xA2, CHR 0x84, CHR 0xE8, CHR 0xAE, CHR 0xBE] @ ''Presets'',
         href = ''/attachments''\<rparr>]\<rparr>,
     \<lparr>group_title = ''Wepback'',
      links = [
        \<lparr>title = [CHR 0xE6, CHR 0x95, CHR 0xB4, CHR 0xE4, CHR 0xBD, CHR 0x93, CHR 0xE9, CHR 0x85, CHR 0x8D, CHR 0xE7, CHR 0xBD, CHR 0xAE, CHR 0xE7, CHR 0xBB, CHR 0x93, CHR 0xE6, CHR 0x9E, CHR 0x84],
         href = ''/contacts''\<rparr>,
        \<lparr>title = [CHR 0xE7, CHR 0xAE, CHR 0x80, CHR 0xE6, CHR 0x98, CHR 0x93, CHR 0xE7, CHR 0x89, CHR 0x88, CHR 0xE6, CHR 0x89, CHR 0x93, CHR 0xE5, CHR 0x8C, CHR 0x85, CHR 0xE5, CHR 0xAE, CHR 0x9E, CHR 0xE7, CHR 0x8E, CHR 0xB0, CHR 0xE5, CHR 0xBA, CHR 0x93],
         href = ''/conversations''\<rparr>,
        \<lparr>title = [CHR 0xE6, CHR 0x89, CHR 0x93, CHR 0xE5, CHR 0x8C, CHR 0x85, CHR 0xE5, CHR 0x90, CHR 0x8E, CHR 0xE4, CHR 0xBB, CHR 0xA3, CHR 0xE7, CHR 0xA0, CHR 0x81, CHR 0xE7, CHR 0x89, CHR 0x87, CHR 0xE6, CHR 0xAE, CHR 0xB5],
         href = ''/messages''\<rparr>,
        \<lparr>title = ''webpack'' @ [CHR 0xE9, CHR 0x97, CHR 0xAE, CHR 0xE9, CHR 0xA2, CHR 0x98, CHR 0xE7, CHR 0x82, CHR 0xB9],
         href = ''/groups''\<rparr>,
        \<lparr>title = [CHR 0xE9, CHR 0x85, CHR 0x8D, CHR 0xE7, CHR 0xBD, CHR 0xAE, CHR 0xE6, CHR 0x96, CHR 0x87, CHR 0xE6, CHR 0xA1, CHR 0xA3],
         href = ''/webpack-config''\<rparr>]\<rparr>,
     \<lparr>group_title = ''Next.js'',
      links = [
        \<lparr>title = ''Next'' @ [CHR 0xE6, CHR 0x9E, CHR 0xB6, CHR 0xE6, CHR 0x9E, CHR 0x84, CHR 0xE5, CHR 0x9B, CHR 0xBE],
         href = ''/contacts''\<rparr>,
        \<lparr>title = ''Next.js VS Remix'',
         href = ''/conversations''\<rparr>,
        \<lparr>title = ''CSR'' @ [CHR 0xE3, CHR 0x80, CHR 0x81] @ ''SSR'' @ [CHR 0xE3, CHR 0x80, CHR 0x81] @ ''SR'' @ [CHR 0xE3, CHR 0x80, CHR 0x81] @ ''HR'',
         href = ''/messages''\<rparr>,
        \<lparr>title = ''Next.config.js'',
         href = ''/groups''\<rparr>,
        \<lparr>title = ''Next.js '' @ [CHR 0xE6, CHR 0x8A, CHR 0x80, CHR 0xE6, CHR 0x9C, CHR 0xAF, CHR 0xE6, CHR 0x96, CHR 0x87, CHR 0xE6, CHR 0xA1, CHR 0xA3],
         href = ''/attachments''\<rparr>,
        \<lparr>title = ''Next.js '' @ [CHR 0xE6, CHR 0xBA, CHR 0x90, CHR 0xE7, CHR 0xA0, CHR 0x81, CHR 0xE6, CHR 0xB5, CHR 0x85, CHR 0xE6, CHR 0x9E, CHR 0x90],
         href = ''/attachments''\<rparr>]\<rparr>,
     \<lparr>group_title = ''React'',
      links = [
        \<lparr>title = ''React'' @ [CHR 0xE6, CHR 0x9E, CHR 0xB6, CHR 0xE6, CHR 0x9E, CHR 0x84, CHR 0xE5, CHR 0x9B, CHR 0xBE],
         href = ''/contacts''\<rparr>,
        \<lparr>title = [CHR 0xE7, CHR 0xB2, CHR 0xBE, CHR 0xE9, CHR 0x80, CHR 0x9A] @ ''React'' @ [CHR 0xE6, CHR 0x8F, CHR 0x90, CHR 0xE7, CHR 0xBA, CHR 0xB2],
         href = ''/conversations''\<rparr>,
        \<lparr>title = ''React '' @ [CHR 0xE5, CHR 0x90, CHR 0x8D, CHR 0xE8, CHR 0xAF, CHR 0x8D, CHR 0xE8, CHR 0xA7, CHR 0xA3, CHR 0xE9, CHR 0x87, CHR 0x8A],
         href = ''/messages''\<rparr>,
        \<lparr>title = [CHR 0xE8, CHR 0xB0, CHR 0x83, CHR 0xE8, CHR 0xAF, CHR 0x95] @ ''React'' @ [CHR 0xE4, CHR 0xBB, CHR 0xA3, CHR 0xE7, CHR 0xA0, CHR 0x81],
         href = ''/groups''\<rparr>,
        \<lparr>title = ''React 18'' @ [CHR 0xE6, CHR 0x96, CHR 0xB0, CHR 0xE7, CHR 0x89, CHR 0xB9, CHR 0xE6, CHR 0x80, CHR 0xA7],
         href = ''/attachments''\<rparr>]\<rparr>,
     \<lparr>group_title = [CHR 0xE5, CHR 0x89, CHR 0x8D, CHR 0xE7, CHR 0xAB, CHR 0xAF, CHR 0xE7, CHR 0xAE, CHR 0x97, CHR 0xE6, CHR 0xB3, CHR 0x95, CHR 0xE5, CHR 0xAE, CHR 0x9E, CHR 0xE6, CHR 0x88, CHR 0x98],
      links = [
        \<lparr>title = [CHR 0xE5, CHR 0x89, CHR 0x8D, CHR 0xE7, CHR 0xAB, CHR 0xAF, CHR 0xE7, CHR 0xAE, CHR 0x97, CHR 0xE6, CHR 0xB3, CHR 0x95, CHR 0xE5, CHR 0xAE, CHR 0x9E, CHR 0xE6, CHR 0x88, CHR 0x98],
         href = ''/contacts''\<rparr>,
        \<lparr>title = [CHR 0xE7, CHR 0xBD, CHR 0x91, CHR 0xE7, CHR 0xAB, CHR 0x99, CHR 0xE5, CHR 0xA4, CHR 0xA7, CHR 0xE5, CHR 0x85, CHR 0xA8],
         href = ''/contacts''\<rparr>]\<rparr>,
     \<lparr>group_title = ''Shell'',
      links = [
        \<lparr>title = [CHR 0xE5, CHR 0xB8, CHR 0xB8, CHR 0xE8, CHR 0xA7, CHR 0x81] @ ''Shell'' @ [CHR 0xE5, CHR 0x91, CHR 0xBD, CHR 0xE4, CHR 0xBB, CHR 0xA4],
         href = ''/contacts''\<rparr>,
        \<lparr>title = ''Shell'' @ [CHR 0xE7, CHR 0x89, CHR 0xB9, CHR 0xE6, CHR 0x80, CHR 0xA7] @ ''Login'',
         href = ''/conversations''\<rparr>,
        \<lparr>title = ''Shader'',
         href = ''/messages''\<rparr>]\<rparr>,
     \<lparr>group_title = ''Typescript'',
      links = [
        \<lparr>title = ''TS'' @ [CHR 0xE5, CHR 0xAD, CHR 0xA6, CHR 0xE4, CHR 0xB9, CHR 0xA0, CHR 0xE5, CHR 0xA4, CHR 0xA7, CHR 0xE7, CHR 0xBA, CHR 0xB2],
         href = ''/contacts''\<rparr>,
        \<lparr>title = ''TS-JSX'',
         href = ''/conversations''\<rparr>,
        \<lparr>title = ''tsconfig.json'',
         href = ''/messages''\<rparr>,
        \<lparr>title = ''TS'' @ [CHR 0xE4, CHR 0xBB, CHR 0xA3, CHR 0xE7, CHR 0xA0, CHR 0x81, CHR 0xE7, CHR 0x89, CHR 0x87, CHR 0xE6, CHR 0xAE, CHR 0xB5],
         href = ''/messages''\<rparr>,
        \<lparr>title = ''TS '' @ [CHR 0xE9, CHR 0xAB, CHR 0x98, CHR 0xE7, CHR 0xBA, CHR 0xA7, CHR 0xE7, CHR 0xB1, CHR 0xBB, CHR 0xE5, CHR 0x9E, CHR 0x8B, CHR 0xE4, CHR 0xBD, CHR 0xBF, CHR 0xE7, CHR 0x94, CHR 0xA8],
         href = ''/messages''\<rparr>,
        \<lparr>title = ''declare'' @ [CHR 0xE4, CHR 0xBD, CHR 0xBF, CHR 0xE7, CHR 0x94, CHR 0xA8, CHR 0xE5, CHR 0xA7, CHR 0xBF, CHR 0xE5, CHR 0x8A, CHR 0xBF],
         href = ''/messages''\<rparr>,
        \<lparr>title = ''TS '' @ [CHR 0xE8, CHR 0xAE, CHR 0xB0, CHR 0xE5, CHR 0xBD, CHR 0x95, CHR 0xE6, CHR 0x91, CHR 0x98, CHR 0xE8, CHR 0xA6, CHR 0x81],
         href = ''/messages''\<rparr>]\<rparr>,
     \<lparr>group_title = ''Vue'',
      links = [
        \<lparr>title = [CHR 0xE6, CHR 0xB7, CHR 0xB7, CHR 0xE5, CHR 0x85, CHR 0xA5, CHR 0xE5, CHR 0x92, CHR 0x8C, CHR 0xE6, CHR 0x8F, CHR 0x92, CHR 0xE4, CHR 0xBB, CHR 0xB6, CHR 0xE6, CHR 0x9C, CHR 0xBA, CHR 0xE5, CHR 0x88, CHR 0xB6],
         href = ''/contacts''\<rparr>,
        \<lparr>title = [CHR 0xE4, CHR 0xBE, CHR 0x9D, CHR 0xE8, CHR 0xB5, CHR 0x96, CHR 0xE6, CHR 0x94, CHR 0xB6, CHR 0xE9, CHR 0x9B, CHR 0x86],
         href = ''/conversations''\<rparr>,
        \<lparr>title = [CHR 0xE5, CHR 0x93, CHR 0x8D, CHR 0xE5, CHR 0xBA, CHR 0x94, CHR 0xE5, CHR 0x8E, CHR 0x9F, CHR 0xE7, CHR 0x90, CHR 0x86, CHR 0xE5, CHR 0xA6, CHR 0x82, CHR 0xE4, CHR 0xBD, CHR 0x95, CHR 0xE5, CHR 0xAE, CHR 0x9E, CHR 0xE7, CHR 0x8E, CHR 0xB0],
         href = ''/messages''\<rparr>,
        \<lparr>title = [CHR 0xE7, CHR 0x94, CHR 0x9F, CHR 0xE5, CHR 0x91, CHR 0xBD, CHR 0xE5, CHR 0x91, CHR 0xA8, CHR 0xE6, CHR 0x9C, CHR 0x9F],
         href = ''/messages''\<rparr>,
        \<lparr>title = [CHR 0xE7, CHR 0x94, CHR 0x9F, CHR 0xE5, CHR 0x91, CHR 0xBD, CHR 0xE5, CHR 0x91, CHR 0xA8, CHR 0xE6, CHR 0x9C, CHR 0x9F],
         href = ''/messages''\<rparr>]\<rparr>,
     \<lparr>group_title = [CHR 0xE5, CHR 0x89, CHR 0x8D, CHR 0xE7, CHR 0xAB, CHR 0xAF, CHR 0xE5, CHR 0xB7, CHR 0xA5, CHR 0xE7, CHR 0xA8, CHR 0x8B, CHR 0xE5, CHR 0x8C, CHR 0x96],
      links = [
        \<lparr>title = [CHR 0xE7, CHR 0xBB, CHR 0x9F, CHR 0xE4, CHR 0xB8, CHR 0x80, CHR 0xE6, CHR 0xA0, CHR 0x87, CHR 0xE5, CHR 0x87, CHR 0x86, CHR 0xEF, CHR 0xBC, CHR 0x9A, CHR 0xE6, CHR 0xB5, CHR 0x81, CHR 0xE7, CHR 0xA8, CHR 0x8B, CHR 0xE3, CHR 0x80, CHR 0x81, CHR 0xE8, CHR 0xA7, CHR 0x84, CHR 0xE8, CHR 0x8C, CHR 0x83, CHR 0xE7, CHR 0xBB, CHR 0x9F, CHR 0xE4, CHR 0xB8, CHR 0x80],
         href = ''/contacts''\<rparr>,
        \<lparr>title = [CHR 0xE5, CHR 0xBE, CHR 0xAE, CHR 0xE5, CHR 0x89, CHR 0x8D, CHR 0xE7, CHR 0xAB, CHR 0xAF],
         href = ''/conversations''\<rparr>]\<rparr>,
     \<lparr>group_title = [CHR 0xE7, CHR 0xBD, CHR 0x91, CHR 0xE7, CHR 0xBB, CHR 0x9C, CHR 0xE7, CHR 0x9F, CHR 0xA5, CHR 0xE8, CHR 0xAF, CHR 0x86],
      links = [
        \<lparr>title = ''JWT'',
         href = ''/contacts''\<rparr>,
        \<lparr>title = [CHR 0xE7, CHR 0xBD, CHR 0x91, CHR 0xE7, CHR 0xBB, CHR 0x9C, CHR 0xE4, CHR 0xB8, CHR 0x83, CHR 0xE5, CHR 0xB1, CHR 0x82] @ ''&'' @ [CHR 0xE5, CHR 0x8D, CHR 0x8F, CHR 0xE8, CHR 0xAE, CHR 0xAE],
         href = ''/conversations''\<rparr>,
        \<lparr>title = [CHR 0xE5, CHR 0x8D, CHR 0x8F, CHR 0xE5, CHR 0x95, CHR 0x86] @ ''&'' @ [CHR 0xE5, CHR 0xBC, CHR 0xBA, CHR 0xE7, CHR 0xBC, CHR 0x93, CHR 0xE5, CHR 0xAD, CHR 0x98],
         href = ''/messages''\<rparr>,
        \<lparr>title = ''HTTPS '' @ [CHR 0xE8, CHR 0xAF, CHR 0xA6, CHR 0xE8, CHR 0xA7, CHR 0xA3],
         href = ''/messages''\<rparr>]\<rparr>,
     \<lparr>group_title = [CHR 0xE6, CHR 0x80, CHR 0xA7, CHR 0xE8, CHR 0x83, CHR 0xBD, CHR 0xE4, CHR 0xBC, CHR 0x98, CHR 0xE5, CHR 0x8C, CHR 0x96],
      links = [
        \<lparr>title = ''PerformanceObserver code'',
         href = ''/contacts''\<rparr>,
        \<lparr>title = [CHR 0xE6, CHR 0x80, CHR 0xA7, CHR 0xE8, CHR 0x83, CHR 0xBD, CHR 0xE6, CHR 0x9D, CHR 0x82, CHR 0xE8, CHR 0xB0, CHR 0x88],
         href = ''/conversations''\<rparr>,
        \<lparr>title = ''2020 - web-vitals'',
         href = ''/conversations''\<rparr>,
        \<lparr>title = ''2018 - Lighthouse'',
         href = ''/messages''\<rparr>,
        \<lparr>title = ''2017 - Audit'',
         href = ''/messages''\<rparr>,
        \<lparr>title = ''2015 - PWA & AMP'',
         href = ''/messages''\<rparr>,
        \<lparr>title = ''RAIL '' @ [CHR 0xE9, CHR 0x87, CHR 0x8F, CHR 0xE5, CHR 0x8C, CHR 0x96, CHR 0xE4, CHR 0xBD, CHR 0xBF, CHR 0xE7, CHR 0x94, CHR 0xA8, CHR 0xE8, CHR 0x80, CHR 0x85, CHR 0xE4, CHR 0xBD, CHR 0x93, CHR 0xE9, CHR 0xAA, CHR 0x8C],
         href = ''/messages''\<rparr>,
        \<lparr>title = ''Chrome '' @ [CHR 0xE6, CHR 0x80, CHR 0xA7, CHR 0xE8, CHR 0x83, CHR 0xBD, CHR 0xE5, CHR 0xB7, CHR 0xA5, CHR 0xE5, CHR 0x85, CHR 0xB7] @ '' - Audit'',
         href = ''/messages''\<rparr>]\<rparr>]"


subsection \<open>Rendered output\<close>

text \<open>
  A \<^verbatim>\<open>NavLink\<close> element with its props; the \<^verbatim>\<open>style\<close> of the highlight
  band; a list item of a group with the optional nested list of section links; a rendered
  group; the rendered navigation.

  The band, the marker and the nested list are children of \<^verbatim>\<open>AnimatePresence\<close>
  elements. The fields \<open>go_highlight\<close>, \<open>go_marker\<close> and \<open>item_sections\<close> are the
  children that \<^verbatim>\<open>NavigationGroup\<close> gives to them at a render, \<open>None\<close> when it gives
  none. What framer-motion does with a child that is no longer given (it keeps the element
  until its exit animation has ended) is outside the file and is not part of the output.
\<close>

record navlink_out =
  nl_href :: string
  nl_tag :: "string option"
  nl_active :: bool
  nl_isAnchorLink :: bool
  nl_children :: string

record highlight_out =
  hl_height :: real
  hl_top :: real

record item_out =
  item_link :: navlink_out
  item_sections :: "navlink_out list option"

record group_out =
  go_title :: string
  go_highlight :: "highlight_out option"
  go_marker :: "real option"
  go_items :: "item_out list"

record navigation_out =
  nav_topLevel :: "(string \<times> string) list"
  nav_groups :: "group_out list"
  nav_button :: "string \<times> string"

subsection \<open>Components\<close>

definition TopLevelNavItem :: "string \<Rightarrow> string \<Rightarrow> string \<times> string" where
  "TopLevelNavItem hrf children = (hrf, children)"

text \<open>
  \<^verbatim>\<open>NavLink({ href, tag, active, isAnchorLink = false, children })\<close>; a prop that the
  caller leaves out is \<open>None\<close> for \<open>tag\<close> and \<open>False\<close> for \<open>active\<close>, which is only
  tested for truth.
\<close>

definition NavLink :: "string \<Rightarrow> string option \<Rightarrow> bool \<Rightarrow> bool \<Rightarrow> string \<Rightarrow> navlink_out" where
  "NavLink hrf tg active isAnchorLink children =
     \<lparr>nl_href = hrf, nl_tag = tg, nl_active = active, nl_isAnchorLink = isAnchorLink,
      nl_children = children\<rparr>"

text \<open>
  The entry \<^verbatim>\<open>{ id: '_top' }\<close> that \<^verbatim>\<open>VisibleSectionHighlight\<close> puts in front of
  the sections. Only its \<open>id\<close> is read.
\<close>

definition top_section :: page_section where
  "top_section = \<lparr>section_id = ''_top'', section_title = [], tag = None\<rparr>"

text \<open>
  The local \<^verbatim>\<open>firstVisibleSectionIndex\<close> of \<^verbatim>\<open>VisibleSectionHighlight\<close>. An id is a
  string, so it equals \<^verbatim>\<open>visibleSections[0]\<close> only when that is defined.
\<close>

definition firstVisibleSectionIndex :: "page_section list \<Rightarrow> string list \<Rightarrow> int" where
  "firstVisibleSectionIndex secs visible =
     max 0 (findIndex (\<lambda>section. Some (section_id section) = at0 visible) (top_section # secs))"

definition VisibleSectionHighlight ::
  "(page_section list \<times> string list) option \<Rightarrow> env \<Rightarrow> group \<Rightarrow> string
     \<Rightarrow> highlight_out \<times> (page_section list \<times> string list) option" where
  "VisibleSectionHighlight ref e grp path =
     (let (sv, ref') = useInitialValue ref
                         (sections (useSectionStore e), visibleSections (useSectionStore e))
                         (useIsInsideMobileNavigation e);
          secs = fst sv;
          visible = snd sv;
          isPresent = useIsPresent e;
          itemHeight = remToPx (rootFontSize e) 2;
          height = (if isPresent then of_int (max 1 (int (length visible))) * itemHeight
                    else itemHeight);
          top = of_int (findIndex (\<lambda>link. href link = path) (links grp)) * itemHeight
                + of_int (firstVisibleSectionIndex secs visible) * itemHeight
      in (\<lparr>hl_height = height, hl_top = top\<rparr>, ref'))"

text \<open>The local \<^verbatim>\<open>activePageIndex\<close> of \<^verbatim>\<open>ActivePageMarker\<close>.\<close>

definition activePageIndex :: "group \<Rightarrow> string \<Rightarrow> int" where
  "activePageIndex grp path = findIndex (\<lambda>link. href link = path) (links grp)"

text \<open>\<^verbatim>\<open>ActivePageMarker\<close> answers the \<^verbatim>\<open>top\<close> of its style.\<close>

definition ActivePageMarker :: "env \<Rightarrow> group \<Rightarrow> string \<Rightarrow> real" where
  "ActivePageMarker e grp path =
     (let itemHeight = remToPx (rootFontSize e) 2;
          offset = remToPx (rootFontSize e) 0.25
      in offset + of_int (activePageIndex grp path) * itemHeight)"

text \<open>The local \<^verbatim>\<open>isActiveGroup\<close> of \<^verbatim>\<open>NavigationGroup\<close>.\<close>

definition isActiveGroup :: "group \<Rightarrow> string \<Rightarrow> bool" where
  "isActiveGroup grp path = (findIndex (\<lambda>link. href link = path) (links grp) \<noteq> - 1)"

text \<open>
  The reference cells of one \<^verbatim>\<open>NavigationGroup\<close> instance: its own, and the one of its
  \<^verbatim>\<open>VisibleSectionHighlight\<close> child, which exists while the child is rendered. (That
  \<^verbatim>\<open>AnimatePresence\<close> keeps a removed child for the time of its exit animation is not
  modelled.)
\<close>

record group_hooks =
  nav_ref :: "(router \<times> page_section list) option"
  highlight_ref :: "(page_section list \<times> string list) option"

definition unmounted :: group_hooks where
  "unmounted = \<lparr>nav_ref = None, highlight_ref = None\<rparr>"

definition NavigationGroup :: "group_hooks \<Rightarrow> env \<Rightarrow> group \<Rightarrow> group_out \<times> group_hooks" where
  "NavigationGroup h e grp =
     (let isInsideMobileNavigation = useIsInsideMobileNavigation e;
          (rs, nref) = useInitialValue (nav_ref h)
                         (useRouter e, sections (useSectionStore e)) isInsideMobileNavigation;
          rtr = fst rs;
          secs = snd rs;
          active = isActiveGroup grp (pathname rtr);
          highlight = (if active
                       then Some (VisibleSectionHighlight (highlight_ref h) e grp (pathname rtr))
                       else None);
          marker = (if active then Some (ActivePageMarker e grp (pathname rtr)) else None)
      in (\<lparr>go_title = group_title grp,
           go_highlight = map_option fst highlight,
           go_marker = marker,
           go_items = map (\<lambda>link.
             \<lparr>item_link = NavLink (href link) None (href link = pathname rtr) False (title link),
              item_sections =
                (if href link = pathname rtr \<and> length secs > 0
                 then Some (map (\<lambda>section.
                        NavLink (href link @ ''#'' @ section_id section) (tag section) False True
                          (section_title section)) secs)
                 else None)\<rparr>) (links grp)\<rparr>,
          \<lparr>nav_ref = nref,
           highlight_ref = (case highlight of None \<Rightarrow> None | Some hr \<Rightarrow> snd hr)\<rparr>))"

text \<open>
  \<^verbatim>\<open>Navigation\<close> renders one \<^verbatim>\<open>NavigationGroup\<close> for each group, with the group's
  title as React key: the hooks of the instances are kept under that key.
\<close>

definition Navigation ::
  "(string \<Rightarrow> group_hooks) \<Rightarrow> env \<Rightarrow> navigation_out \<times> (string \<Rightarrow> group_hooks)" where
  "Navigation hs e =
     (\<lparr>nav_topLevel = [TopLevelNavItem ''#'' ''API'', TopLevelNavItem ''#'' ''Documentation'',
                       TopLevelNavItem ''#'' ''Support''],
       nav_groups = map (\<lambda>grp. fst (NavigationGroup (hs (group_title grp)) e grp)) navigation,
       nav_button = (''#'', ''Sign in'')\<rparr>,
      (\<lambda>k. case find (\<lambda>grp. group_title grp = k) navigation of
              None \<Rightarrow> hs k
            | Some grp \<Rightarrow> snd (NavigationGroup (hs k) e grp)))"

text \<open>Successive renders of one \<^verbatim>\<open>NavigationGroup\<close> instance, one per environment.\<close>

fun NavigationGroup_renders :: "group_hooks \<Rightarrow> group \<Rightarrow> env list \<Rightarrow> group_out list" where
  "NavigationGroup_renders h grp [] = []"
| "NavigationGroup_renders h grp (e # es) =
     fst (NavigationGroup h e grp) # NavigationGroup_renders (snd (NavigationGroup h e grp)) grp es"

text \<open>The number of nested section lists in a rendered navigation.\<close>

definition expansions :: "navigation_out \<Rightarrow> nat" where
  "expansions out =
     length (filter (\<lambda>item. item_sections item \<noteq> None) (concat (map go_items (nav_groups out))))"

subsection \<open>Auxiliary definitions for the statements\<close>

text \<open>
  The hooks of a \<^verbatim>\<open>NavigationGroup\<close> instance after its first render in environment
  \<open>e0\<close>.
\<close>

definition frozen_hooks :: "env \<Rightarrow> group \<Rightarrow> group_hooks" where
  "frozen_hooks e0 grp =
     \<lparr>nav_ref = Some (useRouter e0, sections (useSectionStore e0)),
      highlight_ref =
        (if isActiveGroup grp (pathname (useRouter e0))
         then Some (sections (useSectionStore e0), visibleSections (useSectionStore e0))
         else None)\<rparr>"

text \<open>
  The environment \<open>e\<close> with the router and the section store replaced by those of \<open>e0\<close>.
\<close>

definition captured :: "env \<Rightarrow> env \<Rightarrow> env" where
  "captured e0 e = e\<lparr>useRouter := useRouter e0, useSectionStore := useSectionStore e0\<rparr>"

text \<open>
  The route that a \<^verbatim>\<open>NavigationGroup\<close> instance with the hooks \<open>h\<close> reads at a render
  in the environment \<open>e\<close>: \<^verbatim>\<open>router.pathname\<close> of the router that
  \<^verbatim>\<open>useInitialValue\<close> returns.
\<close>

definition route_read :: "group_hooks \<Rightarrow> env \<Rightarrow> string" where
  "route_read h e =
     pathname (fst (fst (useInitialValue (nav_ref h)
       (useRouter e, sections (useSectionStore e)) (useIsInsideMobileNavigation e))))"

text \<open>
  The section index in the words of the specification: the index of the first currently
  visible section within the ordered section list, \<open>0\<close> if none matches.
\<close>

definition spec_section_index :: "page_section list \<Rightarrow> string list \<Rightarrow> int" where
  "spec_section_index secs visible =
     (case visible of [] \<Rightarrow> 0 | v # vs \<Rightarrow> max 0 (findIndex (\<lambda>section. section_id section = v) secs))"

text \<open>The scenarios of the specification: a group, a section list and an environment.\<close>

definition scenario_group :: group where
  "scenario_group =
     \<lparr>group_title = ''Javascript'',
      links = [
        \<lparr>title = [CHR 0xE8, CHR 0xAF, CHR 0x8D, CHR 0xE6, CHR 0xB3, CHR 0x95, CHR 0xE7, CHR 0x8E, CHR 0xAF, CHR 0xE5, CHR 0xA2, CHR 0x83],
         href = ''/''\<rparr>,
        \<lparr>title = [CHR 0xE9, CHR 0x97, CHR 0xAE, CHR 0xE9, CHR 0xA2, CHR 0x98, CHR 0xE6, CHR 0x91, CHR 0x98, CHR 0xE8, CHR 0xA6, CHR 0x81],
         href = ''/quickstart''\<rparr>]\<rparr>"

definition scenario_sections :: "page_section list" where
  "scenario_sections =
     [\<lparr>section_id = ''intro'', section_title = ''Intro'', tag = None\<rparr>,
      \<lparr>section_id = ''usage'', section_title = ''Usage'', tag = None\<rparr>]"

definition scenario_env :: "string \<Rightarrow> string list \<Rightarrow> bool \<Rightarrow> env" where
  "scenario_env path visible mobile =
     \<lparr>useRouter = \<lparr>pathname = path\<rparr>,
      useSectionStore = \<lparr>sections = scenario_sections, visibleSections = visible\<rparr>,
      useIsInsideMobileNavigation = mobile,
      useIsPresent = True,
      rootFontSize = 16\<rparr>"

text \<open>A later environment of the open mobile navigation: another route, no sections.\<close>

definition later_env :: env where
  "later_env =
     \<lparr>useRouter = \<lparr>pathname = ''/''\<rparr>,
      useSectionStore = \<lparr>sections = [], visibleSections = []\<rparr>,
      useIsInsideMobileNavigation = True,
      useIsPresent = True,
      rootFontSize = 16\<rparr>"

section \<open>Properties\<close>

subsection \<open>\<^verbatim>\<open>findIndex\<close>\<close>

lemma findIndex_from_eq:
  "findIndex_from P xs k =
     (if \<exists>x\<in>set xs. P x then k + int (length (takeWhile (\<lambda>x. \<not> P x) xs)) else - 1)"
  by (induction xs arbitrary: k) auto

lemma findIndex_eq:
  "findIndex P xs =
     (if \<exists>x\<in>set xs. P x then int (length (takeWhile (\<lambda>x. \<not> P x) xs)) else - 1)"
  by (simp add: findIndex_def findIndex_from_eq)

lemma takeWhile_first:
  "\<exists>x\<in>set xs. P x \<Longrightarrow>
     length (takeWhile (\<lambda>x. \<not> P x) xs) < length xs
     \<and> P (xs ! length (takeWhile (\<lambda>x. \<not> P x) xs))
     \<and> (\<forall>j<length (takeWhile (\<lambda>x. \<not> P x) xs). \<not> P (xs ! j))"
proof (induction xs)
  case Nil
  then show ?case by simp
next
  case (Cons x xs)
  show ?case
  proof (cases "P x")
    case True
    then show ?thesis by simp
  next
    case False
    with Cons.prems have "\<exists>y\<in>set xs. P y" by simp
    from Cons.IH [OF this] False show ?thesis by (auto simp: nth_Cons')
  qed
qed

lemma findIndex_none: "\<not> (\<exists>x\<in>set xs. P x) \<Longrightarrow> findIndex P xs = - 1"
  by (simp add: findIndex_eq)

lemma findIndex_first:
  assumes "\<exists>x\<in>set xs. P x"
  shows "0 \<le> findIndex P xs \<and> nat (findIndex P xs) < length xs
    \<and> P (xs ! nat (findIndex P xs)) \<and> (\<forall>j<nat (findIndex P xs). \<not> P (xs ! j))"
  using takeWhile_first [OF assms] assms by (simp add: findIndex_eq)

lemma findIndex_found_iff: "findIndex P xs \<noteq> - 1 \<longleftrightarrow> (\<exists>x\<in>set xs. P x)"
  by (simp add: findIndex_eq)

lemma findIndex_unique:
  assumes "i < length xs" and "P (xs ! i)" and "\<forall>j<i. \<not> P (xs ! j)"
  shows "findIndex P xs = int i"
proof -
  have ex: "\<exists>x\<in>set xs. P x"
    using nth_mem [OF assms(1)] assms(2) by blast
  let ?k = "nat (findIndex P xs)"
  from findIndex_first [OF ex]
  have k: "0 \<le> findIndex P xs" "?k < length xs" "P (xs ! ?k)" "\<forall>j<?k. \<not> P (xs ! j)"
    by blast+
  have "\<not> i < ?k" using k(4) assms(2) by blast
  moreover have "\<not> ?k < i" using assms(3) k(3) by blast
  ultimately have "?k = i" by simp
  with k(1) show ?thesis by simp
qed

subsection \<open>The active group and the active link\<close>

text \<open>
  C1. For every group and path, the group is active exactly when some link of the group has
  the path as its href; the active-link index is then the zero-based index of a link with
  that href, and it is \<open>-1\<close> when no link of the group has it.
\<close>

theorem isActiveGroup_activePageIndex_correct:
  "(isActiveGroup G p \<longleftrightarrow> (\<exists>link\<in>set (links G). href link = p))
   \<and> ((\<exists>link\<in>set (links G). href link = p) \<longrightarrow>
        0 \<le> activePageIndex G p \<and> nat (activePageIndex G p) < length (links G)
        \<and> href (links G ! nat (activePageIndex G p)) = p)
   \<and> (\<not> (\<exists>link\<in>set (links G). href link = p) \<longrightarrow> activePageIndex G p = - 1)"
proof -
  have a: "isActiveGroup G p \<longleftrightarrow> (\<exists>link\<in>set (links G). href link = p)"
    unfolding isActiveGroup_def by (rule findIndex_found_iff)
  have b: "(\<exists>link\<in>set (links G). href link = p) \<longrightarrow>
        0 \<le> activePageIndex G p \<and> nat (activePageIndex G p) < length (links G)
        \<and> href (links G ! nat (activePageIndex G p)) = p"
    unfolding activePageIndex_def
    using findIndex_first [of "links G" "\<lambda>link. href link = p"] by blast
  have c: "\<not> (\<exists>link\<in>set (links G). href link = p) \<longrightarrow> activePageIndex G p = - 1"
    unfolding activePageIndex_def by (simp add: findIndex_none)
  from a b c show ?thesis by blast
qed

theorem isActiveGroup_activePageIndex_correct_witness:
  "(\<exists>link\<in>set (links scenario_group). href link = ''/quickstart'')
   \<and> isActiveGroup scenario_group ''/quickstart''
   \<and> href (links scenario_group ! nat (activePageIndex scenario_group ''/quickstart''))
       = ''/quickstart''
   \<and> \<not> (\<exists>link\<in>set (links scenario_group). href link = ''/sdks'')
   \<and> \<not> isActiveGroup scenario_group ''/sdks''
   \<and> activePageIndex scenario_group ''/sdks'' = - 1"
  using isActiveGroup_activePageIndex_correct [of scenario_group "''/quickstart''"]
    isActiveGroup_activePageIndex_correct [of scenario_group "''/sdks''"]
  by (simp add: scenario_group_def)

subsection \<open>The highlight band\<close>

lemma findIndex_Cons:
  "findIndex P (x # xs) =
     (if P x then 0 else if \<exists>y\<in>set xs. P y then 1 + findIndex P xs else - 1)"
  by (simp add: findIndex_eq)

lemma firstVisibleSectionIndex_cases:
  "firstVisibleSectionIndex secs vis =
     (case vis of [] \<Rightarrow> 0
      | v # vs \<Rightarrow>
          if v = ''_top'' then 0
          else if v \<in> set (map section_id secs)
               then 1 + findIndex (\<lambda>section. section_id section = v) secs
               else 0)"
proof (cases vis)
  case Nil
  then show ?thesis
    by (simp add: firstVisibleSectionIndex_def findIndex_eq)
next
  case (Cons v vs)
  show ?thesis
  proof (cases "v \<in> set (map section_id secs)")
    case True
    then have ex: "\<exists>y\<in>set secs. section_id y = v" by auto
    from findIndex_first [of secs "\<lambda>section. section_id section = v", OF ex]
    have "0 \<le> findIndex (\<lambda>section. section_id section = v) secs" by blast
    with ex True Cons show ?thesis
      by (simp add: firstVisibleSectionIndex_def findIndex_Cons top_section_def)
  next
    case False
    then have "\<not> (\<exists>y\<in>set secs. section_id y = v)" by auto
    with False Cons show ?thesis
      by (simp add: firstVisibleSectionIndex_def findIndex_Cons top_section_def)
  qed
qed

text \<open>
  C3, as the code has it. With \<open>secs\<close> and \<open>vis\<close> the sections and the visible section ids
  that the component reads, the top of the highlight band is the row height times the index
  of the active link plus the row height times \<open>firstVisibleSectionIndex\<close>. That index is
  taken in the list that starts with the entry \<open>_top\<close> and goes on with the sections: it is 0
  when no section is visible, when the first visible id is \<open>_top\<close> and when the first visible
  id is the id of no section, and otherwise 1 plus the index of the first section with that
  id. When the visible ids are \<open>intro\<close> and \<open>usage\<close> and \<open>intro\<close> is the first section,
  the index is 1, so the sections contribute one row height.
\<close>

theorem VisibleSectionHighlight_top:
  assumes "fst (useInitialValue ref
                  (sections (useSectionStore e), visibleSections (useSectionStore e))
                  (useIsInsideMobileNavigation e)) = (secs, vis)"
  shows "hl_top (fst (VisibleSectionHighlight ref e grp p)) =
           remToPx (rootFontSize e) 2 * of_int (activePageIndex grp p)
           + remToPx (rootFontSize e) 2 * of_int (firstVisibleSectionIndex secs vis)
         \<and> firstVisibleSectionIndex secs vis =
             (case vis of [] \<Rightarrow> 0
              | v # vs \<Rightarrow>
                  if v = ''_top'' then 0
                  else if v \<in> set (map section_id secs)
                       then 1 + findIndex (\<lambda>section. section_id section = v) secs
                       else 0)
         \<and> (section_id intro = ''intro'' \<longrightarrow>
              firstVisibleSectionIndex (intro # rest) [''intro'', ''usage''] = 1)"
proof -
  have top: "hl_top (fst (VisibleSectionHighlight ref e grp p)) =
           remToPx (rootFontSize e) 2 * of_int (activePageIndex grp p)
           + remToPx (rootFontSize e) 2 * of_int (firstVisibleSectionIndex secs vis)"
    using assms
    by (simp add: VisibleSectionHighlight_def activePageIndex_def Let_def split_def
        mult.commute)
  have scen: "section_id intro = ''intro'' \<longrightarrow>
              firstVisibleSectionIndex (intro # rest) [''intro'', ''usage''] = 1"
    by (simp add: firstVisibleSectionIndex_cases findIndex_Cons)
  from top scen firstVisibleSectionIndex_cases [of secs vis] show ?thesis by blast
qed

text \<open>
  The theorem at the scenario: the second link is active, the first section is the first
  visible one, the root font size is 16, so the band starts at \<open>32 + 32\<close>.
\<close>

theorem VisibleSectionHighlight_top_witness:
  "hl_top (fst (VisibleSectionHighlight None
      (scenario_env ''/quickstart'' [''intro'', ''usage''] False) scenario_group ''/quickstart''))
     = 64
   \<and> firstVisibleSectionIndex scenario_sections [''intro'', ''usage''] = 1"
  using VisibleSectionHighlight_top [of None
      "scenario_env ''/quickstart'' [''intro'', ''usage''] False"
      scenario_sections "[''intro'', ''usage'']" scenario_group "''/quickstart''"
      "hd scenario_sections" "tl scenario_sections"]
  by (simp add: scenario_env_def scenario_sections_def scenario_group_def useInitialValue_def
      remToPx_def activePageIndex_def findIndex_def)

text \<open>
  C3 as the specification words it fails at its own scenario: the index of \<open>intro\<close> within
  the section list is 0, while the band is one row below the active link.
\<close>

theorem VisibleSectionHighlight_top_spec_counterexample:
  "isActiveGroup scenario_group ''/quickstart''
   \<and> hl_top (fst (VisibleSectionHighlight None
        (scenario_env ''/quickstart'' [''intro'', ''usage''] False) scenario_group ''/quickstart''))
     \<noteq> remToPx 16 2 * of_int (activePageIndex scenario_group ''/quickstart'')
       + remToPx 16 2 * of_int (spec_section_index scenario_sections [''intro'', ''usage''])
   \<and> spec_section_index scenario_sections [''intro'', ''usage''] = 0
   \<and> remToPx 16 2 * of_int (firstVisibleSectionIndex scenario_sections [''intro'', ''usage''])
     \<noteq> 0"
  by (simp add: scenario_env_def scenario_sections_def scenario_group_def useInitialValue_def
      remToPx_def activePageIndex_def findIndex_def isActiveGroup_def spec_section_index_def
      VisibleSectionHighlight_def firstVisibleSectionIndex_def top_section_def)

text \<open>
  C4. With \<open>vis\<close> the visible section ids that the component reads: while the band is
  present its height is the row height times the maximum of 1 and the length of \<open>vis\<close>, that is
  the row height times the length for a non-empty list and the row height for an empty one;
  when the band is not present its height is the row height.
\<close>

theorem VisibleSectionHighlight_height:
  assumes "fst (useInitialValue ref
                  (sections (useSectionStore e), visibleSections (useSectionStore e))
                  (useIsInsideMobileNavigation e)) = (secs, vis)"
  shows "(useIsPresent e \<longrightarrow>
            hl_height (fst (VisibleSectionHighlight ref e grp p)) =
              remToPx (rootFontSize e) 2 * real (max 1 (length vis)))
         \<and> (useIsPresent e \<longrightarrow> vis \<noteq> [] \<longrightarrow>
            hl_height (fst (VisibleSectionHighlight ref e grp p)) =
              remToPx (rootFontSize e) 2 * real (length vis))
         \<and> (useIsPresent e \<longrightarrow> vis = [] \<longrightarrow>
            hl_height (fst (VisibleSectionHighlight ref e grp p)) =
              remToPx (rootFontSize e) 2 * 1)
         \<and> (\<not> useIsPresent e \<longrightarrow>
            hl_height (fst (VisibleSectionHighlight ref e grp p)) = remToPx (rootFontSize e) 2)"
proof -
  have h: "hl_height (fst (VisibleSectionHighlight ref e grp p)) =
      (if useIsPresent e then real (max 1 (length vis)) * remToPx (rootFontSize e) 2
       else remToPx (rootFontSize e) 2)"
    using assms by (simp add: VisibleSectionHighlight_def Let_def split_def max_def)
  have m: "vis \<noteq> [] \<Longrightarrow> max 1 (length vis) = length vis"
    by (cases vis) simp_all
  show ?thesis using m by (auto simp: h)
qed

text \<open>The heights for two visible sections, for none, and for a band that is not present.\<close>

theorem VisibleSectionHighlight_height_witness:
  "hl_height (fst (VisibleSectionHighlight None
      (scenario_env ''/quickstart'' [''intro'', ''usage''] False) scenario_group ''/quickstart''))
     = 64
   \<and> hl_height (fst (VisibleSectionHighlight None
      (scenario_env ''/quickstart'' [] False) scenario_group ''/quickstart'')) = 32
   \<and> hl_height (fst (VisibleSectionHighlight None
      ((scenario_env ''/quickstart'' [''intro'', ''usage''] False)\<lparr>useIsPresent := False\<rparr>)
      scenario_group ''/quickstart'')) = 32"
  using VisibleSectionHighlight_height [of None "scenario_env ''/quickstart'' [''intro'', ''usage''] False"
      scenario_sections "[''intro'', ''usage'']" scenario_group "''/quickstart''"]
    VisibleSectionHighlight_height [of None "scenario_env ''/quickstart'' [] False"
      scenario_sections "[]" scenario_group "''/quickstart''"]
    VisibleSectionHighlight_height [of None "(scenario_env ''/quickstart'' [''intro'', ''usage''] False)\<lparr>useIsPresent := False\<rparr>"
      scenario_sections "[''intro'', ''usage'']" scenario_group "''/quickstart''"]
  by (simp add: scenario_env_def useInitialValue_def remToPx_def)

subsection \<open>The active-link marker\<close>

text \<open>
  C5. When the link at index \<open>i\<close> of a group has the path as href and no link before it
  has, the group is active, the index of the active link is \<open>i\<close>, and the top of the marker
  is the offset \<open>remToPx(0.25)\<close> plus the row height \<open>remToPx(2)\<close> times \<open>i\<close>, also as
  \<^verbatim>\<open>NavigationGroup\<close> renders it. For the group of the scenario and the path
  \<open>/quickstart\<close> the group is active, the index is 1, and the marker is at the offset plus
  one row height.
\<close>

theorem ActivePageMarker_top:
  "(i < length (links grp) \<and> href (links grp ! i) = p \<and> (\<forall>j<i. href (links grp ! j) \<noteq> p) \<longrightarrow>
      isActiveGroup grp p
      \<and> activePageIndex grp p = int i
      \<and> ActivePageMarker e grp p =
          remToPx (rootFontSize e) 0.25 + remToPx (rootFontSize e) 2 * real i
      \<and> go_marker (fst (NavigationGroup unmounted (e\<lparr>useRouter := \<lparr>pathname = p\<rparr>\<rparr>) grp)) =
          Some (remToPx (rootFontSize e) 0.25 + remToPx (rootFontSize e) 2 * real i))
   \<and> isActiveGroup scenario_group ''/quickstart''
   \<and> activePageIndex scenario_group ''/quickstart'' = 1
   \<and> ActivePageMarker e scenario_group ''/quickstart'' =
       remToPx (rootFontSize e) 0.25 + remToPx (rootFontSize e) 2
   \<and> go_marker (fst (NavigationGroup unmounted (e\<lparr>useRouter := \<lparr>pathname = ''/quickstart''\<rparr>\<rparr>)
        scenario_group)) = Some (remToPx (rootFontSize e) 0.25 + remToPx (rootFontSize e) 2)"
proof -
  have gen: "isActiveGroup g q \<and> activePageIndex g q = int n
      \<and> ActivePageMarker e g q =
          remToPx (rootFontSize e) 0.25 + remToPx (rootFontSize e) 2 * real n
      \<and> go_marker (fst (NavigationGroup unmounted (e\<lparr>useRouter := \<lparr>pathname = q\<rparr>\<rparr>) g)) =
          Some (remToPx (rootFontSize e) 0.25 + remToPx (rootFontSize e) 2 * real n)"
    if "n < length (links g)" and "href (links g ! n) = q" and "\<forall>j<n. href (links g ! j) \<noteq> q"
    for g q n
  proof -
    have idx: "findIndex (\<lambda>link. href link = q) (links g) = int n"
      using that by (intro findIndex_unique) auto
    then have act: "isActiveGroup g q"
      by (simp add: isActiveGroup_def)
    have top: "ActivePageMarker e' g q =
        remToPx (rootFontSize e') 0.25 + remToPx (rootFontSize e') 2 * real n" for e'
      by (simp add: ActivePageMarker_def activePageIndex_def idx Let_def mult.commute)
    have marker: "go_marker (fst (NavigationGroup unmounted (e\<lparr>useRouter := \<lparr>pathname = q\<rparr>\<rparr>) g)) =
        Some (remToPx (rootFontSize e) 0.25 + remToPx (rootFontSize e) 2 * real n)"
      using act
      by (simp add: NavigationGroup_def unmounted_def useInitialValue_def Let_def split_def top)
    from idx act top [of e] marker show ?thesis
      by (simp add: activePageIndex_def)
  qed
  have scen: "1 < length (links scenario_group)"
    "href (links scenario_group ! 1) = ''/quickstart''"
    "\<forall>j<1. href (links scenario_group ! j) \<noteq> ''/quickstart''"
    by (simp_all add: scenario_group_def)
  from gen [OF scen] gen [of i grp p] show ?thesis by simp
qed

text \<open>The third link of the first group of the navigation: \<open>4 + 2 * 32\<close>.\<close>

theorem ActivePageMarker_top_witness:
  "href (links (navigation ! 0) ! 2) = ''/sdks''
   \<and> isActiveGroup (navigation ! 0) ''/sdks''
   \<and> activePageIndex (navigation ! 0) ''/sdks'' = 2
   \<and> ActivePageMarker (scenario_env ''/sdks'' [] False) (navigation ! 0) ''/sdks'' = 68
   \<and> go_marker (fst (NavigationGroup unmounted (scenario_env ''/sdks'' [] False)
        (navigation ! 0))) = Some 68"
proof -
  have a: "2 < length (links (navigation ! 0))"
    "href (links (navigation ! 0) ! 2) = ''/sdks''"
    by (simp_all add: navigation_def)
  have b: "\<forall>j<2. href (links (navigation ! 0) ! j) \<noteq> ''/sdks''"
  proof (intro allI impI)
    fix j :: nat assume "j < 2"
    then have "j = 0 \<or> j = 1" by auto
    then show "href (links (navigation ! 0) ! j) \<noteq> ''/sdks''"
      by (auto simp: navigation_def)
  qed
  have e: "(scenario_env ''/sdks'' [] False)\<lparr>useRouter := \<lparr>pathname = ''/sdks''\<rparr>\<rparr>
      = scenario_env ''/sdks'' [] False"
    by (simp add: scenario_env_def)
  have r: "rootFontSize (scenario_env ''/sdks'' [] False) = 16"
    by (simp add: scenario_env_def)
  from ActivePageMarker_top [of 2 "navigation ! 0" "''/sdks''" "scenario_env ''/sdks'' [] False"] a b
  show ?thesis by (simp add: e r remToPx_def)
qed

text \<open>
  C8. For a positive root font size, the top of the marker is strictly increasing in the index
  of the active link.
\<close>

theorem ActivePageMarker_top_strict_mono:
  assumes "0 < rootFontSize e"
    and "activePageIndex grp p < activePageIndex grp' p'"
  shows "ActivePageMarker e grp p < ActivePageMarker e grp' p'"
proof -
  have "0 < remToPx (rootFontSize e) 2"
    using assms(1) by (simp add: remToPx_def)
  moreover have "(of_int (activePageIndex grp p) :: real) < of_int (activePageIndex grp' p')"
    using assms(2) by simp
  ultimately show ?thesis
    by (simp add: ActivePageMarker_def Let_def)
qed

text \<open>The first and the second link of the scenario's group.\<close>

theorem ActivePageMarker_top_strict_mono_witness:
  "(0::real) < rootFontSize (scenario_env ''/'' [] False)
   \<and> activePageIndex scenario_group ''/'' < activePageIndex scenario_group ''/quickstart''
   \<and> ActivePageMarker (scenario_env ''/'' [] False) scenario_group ''/''
       < ActivePageMarker (scenario_env ''/'' [] False) scenario_group ''/quickstart''"
proof -
  have a: "(0::real) < rootFontSize (scenario_env ''/'' [] False)"
    by (simp add: scenario_env_def)
  have b: "activePageIndex scenario_group ''/'' < activePageIndex scenario_group ''/quickstart''"
    by (simp add: activePageIndex_def findIndex_def scenario_group_def)
  from a b ActivePageMarker_top_strict_mono [OF a b] show ?thesis by simp
qed

text \<open>
  C10. When links of a group have the path as href (one or several), the index that places the
  band and the marker is the index of the first of them: no link before it has that href.
\<close>

theorem active_link_index_first_match:
  assumes "\<exists>link\<in>set (links grp). href link = p"
    and "fst (useInitialValue ref
                  (sections (useSectionStore e), visibleSections (useSectionStore e))
                  (useIsInsideMobileNavigation e)) = (secs, vis)"
  shows "0 \<le> activePageIndex grp p
         \<and> nat (activePageIndex grp p) < length (links grp)
         \<and> href (links grp ! nat (activePageIndex grp p)) = p
         \<and> (\<forall>j<nat (activePageIndex grp p). href (links grp ! j) \<noteq> p)
         \<and> hl_top (fst (VisibleSectionHighlight ref e grp p)) =
             of_int (activePageIndex grp p) * remToPx (rootFontSize e) 2
             + of_int (firstVisibleSectionIndex secs vis) * remToPx (rootFontSize e) 2
         \<and> ActivePageMarker e grp p =
             remToPx (rootFontSize e) 0.25
             + of_int (activePageIndex grp p) * remToPx (rootFontSize e) 2"
proof -
  from findIndex_first [of "links grp" "\<lambda>link. href link = p", OF assms(1)]
  have first: "0 \<le> activePageIndex grp p \<and> nat (activePageIndex grp p) < length (links grp)
      \<and> href (links grp ! nat (activePageIndex grp p)) = p
      \<and> (\<forall>j<nat (activePageIndex grp p). href (links grp ! j) \<noteq> p)"
    by (simp add: activePageIndex_def)
  have band: "hl_top (fst (VisibleSectionHighlight ref e grp p)) =
             of_int (activePageIndex grp p) * remToPx (rootFontSize e) 2
             + of_int (firstVisibleSectionIndex secs vis) * remToPx (rootFontSize e) 2"
    using assms(2)
    by (simp add: VisibleSectionHighlight_def activePageIndex_def Let_def split_def)
  have marker: "ActivePageMarker e grp p =
             remToPx (rootFontSize e) 0.25
             + of_int (activePageIndex grp p) * remToPx (rootFontSize e) 2"
    by (simp add: ActivePageMarker_def Let_def)
  from first band marker show ?thesis by blast
qed

text \<open>
  The second group of the navigation has \<open>/attachments\<close> at the indices 4 and 5: the index
  is 4, the band starts at \<open>4 * 32\<close> and the marker at \<open>4 + 4 * 32\<close>.
\<close>

theorem active_link_index_first_match_witness:
  "(\<exists>link\<in>set (links (navigation ! 1)). href link = ''/attachments'')
   \<and> href (links (navigation ! 1) ! 4) = ''/attachments''
   \<and> href (links (navigation ! 1) ! 5) = ''/attachments''
   \<and> activePageIndex (navigation ! 1) ''/attachments'' = 4
   \<and> hl_top (fst (VisibleSectionHighlight None (scenario_env ''/attachments'' [] False)
        (navigation ! 1) ''/attachments'')) = 128
   \<and> ActivePageMarker (scenario_env ''/attachments'' [] False) (navigation ! 1) ''/attachments''
       = 132"
proof -
  have a: "\<exists>link\<in>set (links (navigation ! 1)). href link = ''/attachments''"
    by (simp add: navigation_def)
  have b: "fst (useInitialValue None
                  (sections (useSectionStore (scenario_env ''/attachments'' [] False)),
                   visibleSections (useSectionStore (scenario_env ''/attachments'' [] False)))
                  (useIsInsideMobileNavigation (scenario_env ''/attachments'' [] False)))
             = (scenario_sections, [])"
    by (simp add: scenario_env_def useInitialValue_def)
  have c: "href (links (navigation ! 1) ! 4) = ''/attachments''"
    "href (links (navigation ! 1) ! 5) = ''/attachments''"
    by (simp_all add: navigation_def)
  have d: "activePageIndex (navigation ! 1) ''/attachments'' = 4"
    by (simp add: navigation_def activePageIndex_def findIndex_def)
  have f: "firstVisibleSectionIndex scenario_sections [] = 0"
    by (simp add: firstVisibleSectionIndex_cases)
  have r: "rootFontSize (scenario_env ''/attachments'' [] False) = 16"
    by (simp add: scenario_env_def)
  from active_link_index_first_match [OF a b] a c d show ?thesis
    by (simp add: d f r remToPx_def)
qed

subsection \<open>The whole navigation\<close>

text \<open>
  The number of nested section lists at a render that reads the live route: none when there
  are no sections, and otherwise one for each link of the navigation with the path as href.
\<close>

lemma NavigationGroup_items_live:
  assumes "useIsInsideMobileNavigation e \<longrightarrow> nav_ref h = None"
  shows "length (filter (\<lambda>item. item_sections item \<noteq> None)
           (go_items (fst (NavigationGroup h e grp)))) =
         (if sections (useSectionStore e) = [] then 0
          else length (filter (\<lambda>link. href link = pathname (useRouter e)) (links grp)))"
proof -
  have live: "fst (useInitialValue (nav_ref h)
                (useRouter e, sections (useSectionStore e)) (useIsInsideMobileNavigation e))
              = (useRouter e, sections (useSectionStore e))"
    using assms by (auto simp: useInitialValue_def Let_def)
  show ?thesis
    by (simp add: NavigationGroup_def Let_def split_def live filter_map comp_def)
qed

lemma expansions_count:
  assumes "useIsInsideMobileNavigation e \<longrightarrow>
           (\<forall>grp\<in>set navigation. nav_ref (hs (group_title grp)) = None)"
  shows "expansions (fst (Navigation hs e)) =
         (if sections (useSectionStore e) = [] then 0
          else length (filter (\<lambda>link. href link = pathname (useRouter e))
                 (concat (map links navigation))))"
proof -
  have "length (filter (\<lambda>item. item_sections item \<noteq> None)
          (concat (map (\<lambda>grp. go_items (fst (NavigationGroup (hs (group_title grp)) e grp))) gs))) =
        (if sections (useSectionStore e) = [] then 0
         else length (filter (\<lambda>link. href link = pathname (useRouter e))
                 (concat (map links gs))))"
    if "set gs \<subseteq> set navigation" for gs
    using that
  proof (induction gs)
    case Nil
    then show ?case by simp
  next
    case (Cons g gs)
    then have "useIsInsideMobileNavigation e \<longrightarrow> nav_ref (hs (group_title g)) = None"
      using assms by simp
    from NavigationGroup_items_live [OF this, of g] Cons show ?case by simp
  qed
  from this [of navigation] show ?thesis
    by (simp add: expansions_def Navigation_def comp_def)
qed

text \<open>
  C2. The navigation repeats hrefs, within groups and across them. With the path
  \<open>/contacts\<close> and two sections the navigation renders twelve nested section lists, and
  with the path \<open>/attachments\<close> its second group alone renders two.
\<close>

theorem duplicate_href_expansions:
  "expansions (fst (Navigation (\<lambda>k. unmounted) (scenario_env ''/contacts'' [] False))) = 12
   \<and> length (filter (\<lambda>item. item_sections item \<noteq> None)
        (go_items (fst (NavigationGroup unmounted (scenario_env ''/attachments'' [] False)
           (navigation ! 1))))) = 2"
  by (simp add: expansions_def Navigation_def NavigationGroup_def navigation_def
      scenario_env_def scenario_sections_def unmounted_def useInitialValue_def Let_def split_def)

text \<open>
  C6. The groups of the navigation whose hrefs are pairwise distinct: the groups at the
  indices 0, 2, 4, 6 and 9, and no other.
\<close>

theorem navigation_href_distinct_eval:
  "map (\<lambda>grp. distinct (map href (links grp))) navigation =
     [True, False, True, False, True, False, True, False, False, True, False, False]"
  by (simp add: navigation_def)

subsection \<open>The mobile navigation keeps its first state\<close>

lemma captured_self: "captured e e = e"
  by (simp add: captured_def)

lemma NavigationGroup_mount:
  "snd (NavigationGroup unmounted e0 grp) = frozen_hooks e0 grp"
  by (simp add: NavigationGroup_def unmounted_def frozen_hooks_def useInitialValue_def
      VisibleSectionHighlight_def Let_def split_def)

lemma NavigationGroup_frozen:
  assumes "useIsInsideMobileNavigation e"
  shows "NavigationGroup (frozen_hooks e0 grp) e grp =
           (fst (NavigationGroup unmounted (captured e0 e) grp), frozen_hooks e0 grp)"
  using assms
  by (simp add: NavigationGroup_def unmounted_def frozen_hooks_def useInitialValue_def
      VisibleSectionHighlight_def ActivePageMarker_def captured_def Let_def split_def)

lemma renders_frozen:
  "\<forall>e\<in>set es. useIsInsideMobileNavigation e \<Longrightarrow>
   NavigationGroup_renders (frozen_hooks e0 grp) grp es =
     map (\<lambda>e. fst (NavigationGroup unmounted (captured e0 e) grp)) es"
  by (induction es) (simp_all add: NavigationGroup_frozen)

lemma renders_mobile:
  assumes "\<forall>e\<in>set es. useIsInsideMobileNavigation e"
  shows "NavigationGroup_renders unmounted grp (e0 # es) =
     map (\<lambda>e. fst (NavigationGroup unmounted (captured e0 e) grp)) (e0 # es)"
  using renders_frozen [OF assms] by (simp add: NavigationGroup_mount captured_self)

lemma captured_mobile:
  "useIsInsideMobileNavigation e \<Longrightarrow>
   captured e0 e =
     \<lparr>useRouter = useRouter e0, useSectionStore = useSectionStore e0,
      useIsInsideMobileNavigation = True, useIsPresent = useIsPresent e,
      rootFontSize = rootFontSize e\<rparr>"
  by (simp add: captured_def)

lemma captured_renders_cong:
  assumes "\<forall>e\<in>set es. useIsInsideMobileNavigation e"
  shows "map (\<lambda>e. fst (NavigationGroup unmounted (captured e0 e) grp)) es =
     map (\<lambda>br. fst (NavigationGroup unmounted
            \<lparr>useRouter = useRouter e0, useSectionStore = useSectionStore e0,
             useIsInsideMobileNavigation = True, useIsPresent = fst br,
             rootFontSize = snd br\<rparr> grp))
       (map (\<lambda>e. (useIsPresent e, rootFontSize e)) es)"
  using assms by (induction es) (simp_all add: captured_mobile)

text \<open>
  C9. Inside the mobile navigation, every render of a \<^verbatim>\<open>NavigationGroup\<close> instance is the
  first render of the instance with the router and the section store of the first
  environment, whatever the router and the store are later. So two runs that start in the same
  environment and go on inside the mobile navigation, with the same \<^verbatim>\<open>useIsPresent()\<close> and
  root font size at each step, render the same.
\<close>

theorem NavigationGroup_frozen_in_mobile_navigation:
  assumes "\<forall>e\<in>set es. useIsInsideMobileNavigation e"
    and "\<forall>e\<in>set es'. useIsInsideMobileNavigation e"
    and "map (\<lambda>e. (useIsPresent e, rootFontSize e)) es =
         map (\<lambda>e. (useIsPresent e, rootFontSize e)) es'"
  shows "NavigationGroup_renders unmounted grp (e0 # es) =
           map (\<lambda>e. fst (NavigationGroup unmounted (captured e0 e) grp)) (e0 # es)
         \<and> NavigationGroup_renders unmounted grp (e0 # es) =
           NavigationGroup_renders unmounted grp (e0 # es')"
proof -
  have "map (\<lambda>e. fst (NavigationGroup unmounted (captured e0 e) grp)) es =
        map (\<lambda>e. fst (NavigationGroup unmounted (captured e0 e) grp)) es'"
    by (simp only: captured_renders_cong [OF assms(1)] captured_renders_cong [OF assms(2)]
        assms(3))
  then have "NavigationGroup_renders unmounted grp (e0 # es) =
           NavigationGroup_renders unmounted grp (e0 # es')"
    by (simp only: renders_mobile [OF assms(1)] renders_mobile [OF assms(2)] list.map)
  with renders_mobile [OF assms(1)] show ?thesis by blast
qed

text \<open>
  A first render at \<open>/quickstart\<close>, then a render with the route \<open>/\<close> and no sections, or
  with the route \<open>/sdks\<close>: the second output is the first one.
\<close>

theorem NavigationGroup_frozen_in_mobile_navigation_witness:
  "useIsInsideMobileNavigation later_env
   \<and> useIsInsideMobileNavigation (scenario_env ''/sdks'' [] True)
   \<and> NavigationGroup_renders unmounted scenario_group
        [scenario_env ''/quickstart'' [''usage''] True, later_env] =
      [fst (NavigationGroup unmounted (scenario_env ''/quickstart'' [''usage''] True) scenario_group),
       fst (NavigationGroup unmounted (scenario_env ''/quickstart'' [''usage''] True) scenario_group)]
   \<and> NavigationGroup_renders unmounted scenario_group
        [scenario_env ''/quickstart'' [''usage''] True, later_env] =
      NavigationGroup_renders unmounted scenario_group
        [scenario_env ''/quickstart'' [''usage''] True, scenario_env ''/sdks'' [] True]"
proof -
  have a: "\<forall>e\<in>set [later_env]. useIsInsideMobileNavigation e"
    by (simp add: later_env_def)
  have b: "\<forall>e\<in>set [scenario_env ''/sdks'' [] True]. useIsInsideMobileNavigation e"
    by (simp add: scenario_env_def)
  have c: "map (\<lambda>e. (useIsPresent e, rootFontSize e)) [later_env] =
         map (\<lambda>e. (useIsPresent e, rootFontSize e)) [scenario_env ''/sdks'' [] True]"
    by (simp add: later_env_def scenario_env_def)
  have d: "captured (scenario_env ''/quickstart'' [''usage''] True) later_env
      = scenario_env ''/quickstart'' [''usage''] True"
    by (simp add: captured_def later_env_def scenario_env_def)
  note r = NavigationGroup_frozen_in_mobile_navigation [OF a b c, of scenario_group "scenario_env ''/quickstart'' [''usage''] True",
      unfolded list.map d captured_self]
  have a': "useIsInsideMobileNavigation later_env"
    using a by simp
  have b': "useIsInsideMobileNavigation (scenario_env ''/sdks'' [] True)"
    using b by simp
  from r a' b' show ?thesis by blast
qed

subsection \<open>A route that matches no link\<close>

lemma route_read_live:
  "(useIsInsideMobileNavigation e \<longrightarrow> nav_ref h = None) \<Longrightarrow>
   route_read h e = pathname (useRouter e)"
  by (auto simp: route_read_def useInitialValue_def Let_def)

lemma route_read_frozen:
  "useIsInsideMobileNavigation e \<Longrightarrow> nav_ref h = Some (r, s) \<Longrightarrow> route_read h e = pathname r"
  by (simp add: route_read_def useInitialValue_def Let_def)

lemma Navigation_mount_nav_ref:
  "list_all (\<lambda>grp. nav_ref (snd (Navigation (\<lambda>k. unmounted) e0) (group_title grp))
       = Some (useRouter e0, sections (useSectionStore e0))) navigation"
  by (simp add: Navigation_def navigation_def NavigationGroup_def unmounted_def
      useInitialValue_def Let_def split_def)

text \<open>
  C7, as the code has it. At every render: when the route that each \<^verbatim>\<open>NavigationGroup\<close>
  reads is the href of none of its links, no group is active, and no group gives a highlight
  band or a marker to \<^verbatim>\<open>AnimatePresence\<close>. The route read is the live route outside the
  mobile navigation and at a first render.
\<close>

theorem no_match_renders_no_highlight_no_marker:
  assumes "\<forall>grp\<in>set navigation. \<forall>link\<in>set (links grp).
             href link \<noteq> route_read (hs (group_title grp)) e"
  shows "(\<forall>grp\<in>set navigation.
            \<not> isActiveGroup grp (route_read (hs (group_title grp)) e))
         \<and> (\<forall>out\<in>set (nav_groups (fst (Navigation hs e))).
               go_highlight out = None \<and> go_marker out = None)
         \<and> ((useIsInsideMobileNavigation e \<longrightarrow>
                (\<forall>grp\<in>set navigation. nav_ref (hs (group_title grp)) = None)) \<longrightarrow>
              (\<forall>grp\<in>set navigation. route_read (hs (group_title grp)) e = pathname (useRouter e)))"
proof -
  have inactive: "\<not> isActiveGroup grp (route_read (hs (group_title grp)) e)"
    if "grp \<in> set navigation" for grp
    using assms that by (auto simp: isActiveGroup_def findIndex_found_iff)
  have "go_highlight (fst (NavigationGroup (hs (group_title grp)) e grp)) = None
      \<and> go_marker (fst (NavigationGroup (hs (group_title grp)) e grp)) = None"
    if "grp \<in> set navigation" for grp
    using inactive [OF that]
    by (simp add: NavigationGroup_def route_read_def Let_def split_def)
  then have out: "\<forall>out\<in>set (nav_groups (fst (Navigation hs e))).
               go_highlight out = None \<and> go_marker out = None"
    by (auto simp: Navigation_def)
  have live: "(useIsInsideMobileNavigation e \<longrightarrow>
                (\<forall>grp\<in>set navigation. nav_ref (hs (group_title grp)) = None)) \<longrightarrow>
              (\<forall>grp\<in>set navigation. route_read (hs (group_title grp)) e = pathname (useRouter e))"
    by (auto intro: route_read_live)
  from inactive out live show ?thesis by blast
qed

text \<open>
  The theorem at a first render with the route \<open>/not-a-real-path\<close>, and at a later render
  of the mobile navigation that was opened at \<open>/not-a-real-path\<close>, when the live route is
  \<open>/quickstart\<close>.
\<close>

theorem no_match_renders_no_highlight_no_marker_witness:
  "list_all (\<lambda>grp. list_all (\<lambda>link. href link \<noteq> ''/not-a-real-path'') (links grp)) navigation
   \<and> list_all (\<lambda>grp. \<not> isActiveGroup grp ''/not-a-real-path'') navigation
   \<and> list_all (\<lambda>out. go_highlight out = None \<and> go_marker out = None)
        (nav_groups (fst (Navigation (\<lambda>k. unmounted)
           (scenario_env ''/not-a-real-path'' [''intro''] True))))
   \<and> list_all (\<lambda>grp. route_read
          (snd (Navigation (\<lambda>k. unmounted) (scenario_env ''/not-a-real-path'' [] True))
             (group_title grp))
          (scenario_env ''/quickstart'' [] True) = ''/not-a-real-path'') navigation
   \<and> list_all (\<lambda>out. go_highlight out = None \<and> go_marker out = None)
        (nav_groups (fst (Navigation
           (snd (Navigation (\<lambda>k. unmounted) (scenario_env ''/not-a-real-path'' [] True)))
           (scenario_env ''/quickstart'' [] True))))"
proof -
  let ?e0 = "scenario_env ''/not-a-real-path'' [''intro''] True"
  let ?e1 = "scenario_env ''/not-a-real-path'' [] True"
  let ?e2 = "scenario_env ''/quickstart'' [] True"
  let ?hs = "snd (Navigation (\<lambda>k. unmounted) ?e1)"
  have nolink: "\<forall>grp\<in>set navigation. \<forall>link\<in>set (links grp). href link \<noteq> ''/not-a-real-path''"
    by (simp add: navigation_def)
  have r0: "route_read ((\<lambda>k. unmounted) (group_title grp)) ?e0 = ''/not-a-real-path''"
    for grp :: group
    by (simp add: route_read_live unmounted_def scenario_env_def)
  have r2: "route_read (?hs (group_title grp)) ?e2 = ''/not-a-real-path''"
    if "grp \<in> set navigation" for grp
  proof -
    from Navigation_mount_nav_ref [of ?e1] that
    have "nav_ref (?hs (group_title grp)) = Some (useRouter ?e1, sections (useSectionStore ?e1))"
      by (simp add: list_all_iff)
    moreover have "useIsInsideMobileNavigation ?e2" by (simp add: scenario_env_def)
    ultimately have "route_read (?hs (group_title grp)) ?e2 = pathname (useRouter ?e1)"
      by (rule route_read_frozen [rotated])
    then show ?thesis by (simp add: scenario_env_def)
  qed
  have a0: "\<forall>grp\<in>set navigation. \<forall>link\<in>set (links grp).
      href link \<noteq> route_read ((\<lambda>k. unmounted) (group_title grp)) ?e0"
    using nolink by (simp only: r0)
  have a2: "\<forall>grp\<in>set navigation. \<forall>link\<in>set (links grp).
      href link \<noteq> route_read (?hs (group_title grp)) ?e2"
    using nolink r2 by simp
  from no_match_renders_no_highlight_no_marker [OF a0]
    no_match_renders_no_highlight_no_marker [OF a2] nolink r2 show ?thesis
    unfolding list_all_iff by (simp add: r0)
qed

text \<open>
  C7 with the live route fails inside the mobile navigation: opened at \<open>/quickstart\<close>, it
  still renders the marker and the band of the first group when the live route is
  \<open>/not-a-real-path\<close>, which is the href of no link.
\<close>

theorem frozen_route_renders_marker_counterexample:
  "list_all (\<lambda>grp. list_all (\<lambda>link. href link \<noteq>
        pathname (useRouter (scenario_env ''/not-a-real-path'' [] True))) (links grp)) navigation
   \<and> go_marker (nav_groups (fst (Navigation
        (snd (Navigation (\<lambda>k. unmounted) (scenario_env ''/quickstart'' [] True)))
        (scenario_env ''/not-a-real-path'' [] True))) ! 0) = Some 36
   \<and> go_highlight (nav_groups (fst (Navigation
        (snd (Navigation (\<lambda>k. unmounted) (scenario_env ''/quickstart'' [] True)))
        (scenario_env ''/not-a-real-path'' [] True))) ! 0)
       = Some \<lparr>hl_height = 32, hl_top = 32\<rparr>"
proof -
  have a: "list_all (\<lambda>grp. list_all (\<lambda>link. href link \<noteq>
        pathname (useRouter (scenario_env ''/not-a-real-path'' [] True))) (links grp)) navigation"
    by (simp add: scenario_env_def navigation_def)
  have h: "snd (Navigation (\<lambda>k. unmounted) (scenario_env ''/quickstart'' [] True)) ''Javascript''
      = frozen_hooks (scenario_env ''/quickstart'' [] True) (navigation ! 0)"
    by (simp add: Navigation_def navigation_def NavigationGroup_mount)
  have g: "nav_groups (fst (Navigation hs e)) ! 0
      = fst (NavigationGroup (hs ''Javascript'') e (navigation ! 0))" for hs e
    by (simp add: Navigation_def navigation_def)
  have m: "useIsInsideMobileNavigation (scenario_env ''/not-a-real-path'' [] True)"
    by (simp add: scenario_env_def)
  have c: "captured (scenario_env ''/quickstart'' [] True) (scenario_env ''/not-a-real-path'' [] True)
      = scenario_env ''/quickstart'' [] True"
    by (simp add: captured_def scenario_env_def)
  have o: "go_marker (fst (NavigationGroup unmounted (scenario_env ''/quickstart'' [] True)
        (navigation ! 0))) = Some 36"
    "go_highlight (fst (NavigationGroup unmounted (scenario_env ''/quickstart'' [] True)
        (navigation ! 0))) = Some \<lparr>hl_height = 32, hl_top = 32\<rparr>"
    by (simp_all add: NavigationGroup_def navigation_def scenario_env_def unmounted_def
        scenario_sections_def useInitialValue_def isActiveGroup_def findIndex_def
        ActivePageMarker_def activePageIndex_def VisibleSectionHighlight_def
        firstVisibleSectionIndex_def top_section_def remToPx_def Let_def split_def)
  from a o show ?thesis
    by (simp only: g h NavigationGroup_frozen [OF m] c fst_conv simp_thms)
qed

end
